theory Spec2Isabelle
  imports Complex_Main "HOL-Library.Code_Target_Numeral"
begin

section \<open>JavaScript values\<close>

text \<open>
  A JavaScript value that may be \<open>undefined\<close> or \<open>null\<close>. The source tells the two
  apart: a destructuring default and \<open>!== undefined\<close> look at \<open>undefined\<close> only,
  \<open>??\<close> and \<open>!= null\<close> at both.
\<close>

datatype 'a js = Undefined | Null | Val 'a

text \<open>A JSON document, as a request body carries it and a JSONB column stores it.\<close>

datatype json =
    JNull
  | JBool bool
  | JNum int
  | JStr string
  | JArr "json list"
  | JObj "(string \<times> json) list"

text \<open>
  Strings are taken over ASCII: \<open>toLowerCase\<close> maps \<open>A\<close>..\<open>Z\<close> to \<open>a\<close>..\<open>z\<close> and leaves
  every other character alone; \<open>trim\<close> removes leading and trailing white space.
\<close>

definition lowerChar :: "char \<Rightarrow> char" where
  "lowerChar c =
     (case map_of (zip ''ABCDEFGHIJKLMNOPQRSTUVWXYZ'' ''abcdefghijklmnopqrstuvwxyz'') c of
        Some l \<Rightarrow> l
      | None \<Rightarrow> c)"

definition toLowerCase :: "string \<Rightarrow> string" where
  "toLowerCase s = map lowerChar s"



text \<open>\<open>x || null\<close> on a string: \<open>undefined\<close>, \<open>null\<close> and the empty string all give \<open>null\<close>.\<close>

fun orNull :: "string js \<Rightarrow> string option" where
  "orNull (Val s) = (if s = [] then None else Some s)"
| "orNull _ = None"

text \<open>A destructuring default \<open>x = d\<close>: it replaces \<open>undefined\<close> only, \<open>null\<close> stays.\<close>

fun withDefault :: "'a \<Rightarrow> 'a js \<Rightarrow> 'a option" where
  "withDefault d Undefined = Some d"
| "withDefault d Null = None"
| "withDefault d (Val v) = Some v"

section \<open>Job ledger (db.js)\<close>

text \<open>
  One row of table \<open>jobs\<close>. Columns declared \<open>NOT NULL\<close> carry a plain value, the nullable
  ones an option (\<open>None\<close> is SQL \<open>NULL\<close>). Timestamps are milliseconds since the epoch.
  The table is keyed by \<open>task_id\<close> (\<open>UNIQUE NOT NULL\<close>), so it is a map from task ids to rows.
\<close>

record job_row =
  id_col :: nat
  wallet_address :: "string option"
  task_id :: string
  deal_id :: "string option"
  settlement_name :: string
  status :: string
  result :: "json option"
  error :: "string option"
  dataset_url_override :: "string option"
  submitted_at :: int
  settled_tx_hash :: "string option"
  settled_at :: "int option"
  created_at :: "int option"
  updated_at :: "int option"

type_synonym jobs_table = "string \<rightharpoonup> job_row"

text \<open>The object handed to \<open>createJob\<close>, one field per destructured name.\<close>

record job_data =
  d_wallet_address :: "string js"
  d_task_id :: "string js"
  d_deal_id :: "string js"
  d_settlement_name :: "string js"
  d_status :: "string js"
  d_result :: "json option"
  d_error :: "string js"
  d_dataset_url_override :: "string js"
  d_submitted_at :: "int js"

datatype db_error = NotNullViolation string

text \<open>
  What the driver and the database supply: whether a pool exists (\<open>getPool\<close>), the value
  of \<open>NOW()\<close>, the value of \<open>new Date()\<close> and the key \<open>gen_random_uuid()\<close> would draw.
\<close>

record db_env =
  pool :: bool
  db_now :: int
  js_now :: int
  fresh_id :: nat

text \<open>\<open>COALESCE(a, b)\<close>.\<close>

fun coalesce :: "'a option \<Rightarrow> 'a option \<Rightarrow> 'a option" where
  "coalesce (Some a) _ = Some a"
| "coalesce None b = b"

text \<open>\<open>result != null ? JSON.stringify(result) : null\<close>: a missing or null result is SQL \<open>NULL\<close>.\<close>

fun resultParam :: "json option \<Rightarrow> json option" where
  "resultParam None = None"
| "resultParam (Some JNull) = None"
| "resultParam (Some j) = Some j"

text \<open>\<open>wallet_address ? String(wallet_address).toLowerCase() : null\<close>.\<close>

definition walletParam :: "string js \<Rightarrow> string option" where
  "walletParam w = map_option toLowerCase (orNull w)"

text \<open>
  \<open>submitted_at instanceof Date ? submitted_at : new Date(submitted_at)\<close>, with the default
  \<open>new Date()\<close> for \<open>undefined\<close>; \<open>new Date(null)\<close> is the epoch.
\<close>

fun submittedParam :: "int \<Rightarrow> int js \<Rightarrow> int" where
  "submittedParam now Undefined = now"
| "submittedParam now Null = 0"
| "submittedParam now (Val t) = t"

text \<open>
  \<open>createJob\<close>: the \<open>INSERT ... ON CONFLICT (task_id) DO UPDATE\<close>. The proposed row is
  checked against the \<open>NOT NULL\<close> columns before the conflict is looked for, so a null
  \<open>task_id\<close>, \<open>settlement_name\<close> or \<open>status\<close> raises in either case. The value returned is
  the stored row, of which \<open>RETURNING\<close> lists some columns.
\<close>

definition createJob :: "db_env \<Rightarrow> jobs_table \<Rightarrow> job_data \<Rightarrow> db_error + (jobs_table \<times> job_row option)" where
  "createJob env jobs data =
     (if \<not> pool env then Inr (jobs, None)
      else case d_task_id data of
        Undefined \<Rightarrow> Inl (NotNullViolation ''task_id'')
      | Null \<Rightarrow> Inl (NotNullViolation ''task_id'')
      | Val tid \<Rightarrow>
      (case withDefault ''Settlement'' (d_settlement_name data) of
         None \<Rightarrow> Inl (NotNullViolation ''settlement_name'')
       | Some name \<Rightarrow>
       (case withDefault ''submitted'' (d_status data) of
          None \<Rightarrow> Inl (NotNullViolation ''status'')
        | Some st \<Rightarrow>
          (let row =
             (case jobs tid of
                None \<Rightarrow>
                  \<lparr> id_col = fresh_id env,
                    wallet_address = walletParam (d_wallet_address data),
                    task_id = tid,
                    deal_id = orNull (d_deal_id data),
                    settlement_name = name,
                    status = st,
                    result = resultParam (d_result data),
                    error = orNull (d_error data),
                    dataset_url_override = orNull (d_dataset_url_override data),
                    submitted_at = submittedParam (js_now env) (d_submitted_at data),
                    settled_tx_hash = None,
                    settled_at = None,
                    created_at = Some (db_now env),
                    updated_at = Some (db_now env) \<rparr>
              | Some old \<Rightarrow>
                  old \<lparr> deal_id := coalesce (orNull (d_deal_id data)) (deal_id old),
                        settlement_name := name,
                        status := st,
                        result := coalesce (resultParam (d_result data)) (result old),
                        error := orNull (d_error data),
                        updated_at := Some (db_now env) \<rparr>)
           in Inr (jobs(tid \<mapsto> row), Some row)))))"





section \<open>HTTP responses and thrown errors\<close>



text \<open>
  A JavaScript number is a double: not-a-number, an infinity, or a finite value. A
  JavaScript value of unknown type, as far as the source inspects it.
\<close>

datatype jsnumber = NaN | PosInfinity | NegInfinity | Finite rat

datatype jsval = VUndefined | VNull | VBool bool | VNum jsnumber | VStr string | VObject





section \<open>PATCH /jobs/by-task/:taskId (jobs route)\<close>



section \<open>Amounts: formatUsdc and parseUnits (routes/settlement.js)\<close>

















section \<open>Treasury balance (db.js and routes/settlement.js)\<close>














section \<open>POST /settlement/execute (routes/settlement.js)\<close>

























section \<open>Result fetcher (iexec-client.js) and GET /settlement/result/:taskId\<close>






section \<open>Task observer (iexec-client.js)\<close>











section \<open>Concrete inputs\<close>

definition env0 :: db_env where
  "env0 = \<lparr> pool = True, db_now = 2000, js_now = 1999, fresh_id = 7 \<rparr>"

definition row0 :: job_row where
  "row0 =
     \<lparr> id_col = 1, wallet_address = Some ''0xab'', task_id = ''t1'', deal_id = Some ''d1'',
       settlement_name = ''Payroll'', status = ''completed'', result = Some (JStr ''r1''),
       error = None, dataset_url_override = None, submitted_at = 1000, settled_tx_hash = None,
       settled_at = None, created_at = Some 1000, updated_at = Some 1000 \<rparr>"

definition data0 :: job_data where
  "data0 =
     \<lparr> d_wallet_address = Val ''0xCD'', d_task_id = Val ''t1'', d_deal_id = Null,
       d_settlement_name = Undefined, d_status = Val ''failed'', d_result = Some (JStr ''r2''),
       d_error = Val ''boom'', d_dataset_url_override = Val ''u'', d_submitted_at = Val 5 \<rparr>"













section \<open>Job ledger: upsert and patch\<close>

lemma createJob_conflict:
  assumes "pool env" and "d_task_id data = Val tid" and "jobs tid = Some old"
    and "createJob env jobs data = Inr (jobs', r)"
  shows "\<exists>name st.
     withDefault ''Settlement'' (d_settlement_name data) = Some name \<and>
     withDefault ''submitted'' (d_status data) = Some st \<and>
     r = Some (old \<lparr> deal_id := coalesce (orNull (d_deal_id data)) (deal_id old),
                      settlement_name := name,
                      status := st,
                      result := coalesce (resultParam (d_result data)) (result old),
                      error := orNull (d_error data),
                      updated_at := Some (db_now env) \<rparr>) \<and>
     jobs' = jobs(tid \<mapsto> the r)"
  using assms by (auto simp: createJob_def Let_def split: option.splits js.splits)





text \<open>
  C10. When \<open>createJob\<close> is called for a task id that already has a row and succeeds, the
  columns the \<open>DO UPDATE SET\<close> list leaves out keep the values of the stored row: the key
  and the task id, \<open>wallet_address\<close>, \<open>submitted_at\<close>, \<open>dataset_url_override\<close>,
  \<open>settled_tx_hash\<close>, \<open>settled_at\<close> and \<open>created_at\<close>, whatever the call supplies for them;
  the rows of the other tasks are untouched.
\<close>

theorem createJob_existing_frame:
  assumes "pool env" and "d_task_id data = Val tid" and "jobs tid = Some old"
    and "createJob env jobs data = Inr (jobs', r)"
  shows "\<exists>row. r = Some row \<and> jobs' tid = Some row \<and>
     id_col row = id_col old \<and> task_id row = task_id old \<and>
     wallet_address row = wallet_address old \<and>
     submitted_at row = submitted_at old \<and>
     dataset_url_override row = dataset_url_override old \<and>
     settled_tx_hash row = settled_tx_hash old \<and>
     settled_at row = settled_at old \<and>
     created_at row = created_at old \<and>
     (\<forall>t. t \<noteq> tid \<longrightarrow> jobs' t = jobs t)"
  using createJob_conflict [of env data tid jobs old jobs' r] assms by auto

theorem createJob_existing_frame_witness:
  "pool env0 \<and> d_task_id data0 = Val ''t1'' \<and> (Map.empty(''t1'' \<mapsto> row0)) ''t1'' = Some row0 \<and>
   (\<exists>jobs' row. createJob env0 (Map.empty(''t1'' \<mapsto> row0)) data0 = Inr (jobs', Some row) \<and>
      jobs' ''t1'' = Some row \<and>
      wallet_address row = Some ''0xab'' \<and> submitted_at row = 1000 \<and>
      dataset_url_override row = None \<and> settled_tx_hash row = None \<and> settled_at row = None \<and>
      walletParam (d_wallet_address data0) = Some ''0xcd'' \<and> d_submitted_at data0 = Val 5 \<and>
      orNull (d_dataset_url_override data0) = Some ''u'')"
proof -
  have h: "pool env0" "d_task_id data0 = Val ''t1''"
    "(Map.empty(''t1'' \<mapsto> row0)) ''t1'' = Some row0"
    by (simp_all add: env0_def data0_def)
  obtain jobs' r where c: "createJob env0 (Map.empty(''t1'' \<mapsto> row0)) data0 = Inr (jobs', r)"
    by (simp add: createJob_def env0_def data0_def Let_def)
  from createJob_existing_frame
         [of env0 data0 "''t1''" "Map.empty(''t1'' \<mapsto> row0)" row0 jobs' r] h c
  obtain row where
    "r = Some row" "jobs' ''t1'' = Some row" "wallet_address row = wallet_address row0"
    "submitted_at row = submitted_at row0" "dataset_url_override row = dataset_url_override row0"
    "settled_tx_hash row = settled_tx_hash row0" "settled_at row = settled_at row0"
    by blast
  moreover have "walletParam (d_wallet_address data0) = Some ''0xcd''"
    "d_submitted_at data0 = Val 5" "orNull (d_dataset_url_override data0) = Some ''u''"
    by (simp_all add: data0_def walletParam_def toLowerCase_def lowerChar_def)
  ultimately show ?thesis using h c by (simp add: row0_def)
qed



section \<open>Amounts: formatting after parsing\<close>













section \<open>Task observer: timer against subscription\<close>








section \<open>Settlement executor: validation and rejected transactions\<close>


























section \<open>Result fetcher: status and result\<close>




section \<open>Treasury balance: store and chain\<close>


















end
